theory Spec2Isabelle
  imports Main "HOL-Library.Sublist" "HOL-Library.Word"
begin

section \<open>JavaScript values\<close>

text \<open>
  The values the data-access layer handles. Numbers are the integers from \<open>-2^53\<close> to
  \<open>2^53 - 1\<close>, which JavaScript represents exactly and prints as decimal numerals (read
  from the 54-bit word by \<open>sint\<close>), and \<open>NaN\<close>; strings are lists of characters. \<open>JObj\<close> is a plain data object, given by its own enumerable properties in
  the order \<open>Object.keys\<close> lists them; its prototype is \<open>Object.prototype\<close>, as for an
  object literal, a parsed JSON body or a database row. \<open>JFun\<close> is a built-in function
  object, given by its name.
\<close>

datatype jsval =
    JUndefined
  | JNull
  | JBool bool
  | JNum "54 word"
  | JNaN
  | JStr string
  | JArr "jsval list"
  | JObj "(string \<times> jsval) list"
  | JFun string

text \<open>
  What a function throws: the two errors of \<open>expressError\<close> the sources construct, with
  their message; the TypeError of the language; a rejection by the database.
\<close>

datatype error =
    BadRequestError string
  | NotFoundError string
  | TypeError string
  | DbError string

text \<open>ToBoolean: what \<open>if (v)\<close>, \<open>!v\<close>, \<open>a && b\<close> and \<open>a || b\<close> test.\<close>

fun truthy :: "jsval \<Rightarrow> bool" where
  "truthy JUndefined = False"
| "truthy JNull = False"
| "truthy (JBool b) = b"
| "truthy (JNum n) = (n \<noteq> 0)"
| "truthy JNaN = False"
| "truthy (JStr s) = (s \<noteq> [])"
| "truthy (JArr xs) = True"
| "truthy (JObj ps) = True"
| "truthy (JFun f) = True"

text \<open>\<open>a || b\<close>: the left operand when it is truthy, the right one otherwise.\<close>

definition js_or :: "jsval \<Rightarrow> jsval \<Rightarrow> jsval" where
  "js_or a b = (if truthy a then a else b)"

subsection \<open>Decimal numerals\<close>

definition digit :: "nat \<Rightarrow> char" where
  "digit d = char_of (48 + d)"

fun dec :: "nat \<Rightarrow> string" where
  "dec n = (if n < 10 then [digit n] else dec (n div 10) @ [digit (n mod 10)])"

declare dec.simps [simp del]

definition dec_int :: "int \<Rightarrow> string" where
  "dec_int i = (if i < 0 then CHR ''-'' # dec (nat (- i)) else dec (nat i))"

subsection \<open>Strings of values\<close>

text \<open>\<open>Array.prototype.join\<close> on an array of strings.\<close>

fun join :: "string \<Rightarrow> string list \<Rightarrow> string" where
  "join sep [] = []"
| "join sep [x] = x"
| "join sep (x # y # ys) = x @ sep @ join sep (y # ys)"

text \<open>
  ToString, as a template literal applies it to an interpolated value. An array joins
  its elements with a comma, \<open>null\<close> and \<open>undefined\<close> elements giving the empty string;
  a plain object gives \<open>[object Object]\<close>; a built-in function gives its native source
  text. This is the text ToString yields where it returns: on an object with a property
  \<open>toString\<close> of its own it throws instead. The clause builder applies it to the
  scalars of the translation table, to a key and to the members of \<open>Object.prototype\<close>
  only, where it returns.
\<close>

fun to_string :: "jsval \<Rightarrow> string" where
  "to_string JUndefined = ''undefined''"
| "to_string JNull = ''null''"
| "to_string (JBool b) = (if b then ''true'' else ''false'')"
| "to_string (JNum n) = dec_int (sint n)"
| "to_string JNaN = ''NaN''"
| "to_string (JStr s) = s"
| "to_string (JArr xs) =
     join '','' (map (\<lambda>x. if x = JUndefined \<or> x = JNull then [] else to_string x) xs)"
| "to_string (JObj ps) = ''[object Object]''"
| "to_string (JFun f) = ''function '' @ f @ ''() { [native code] }''"

subsection \<open>Property reads\<close>

text \<open>
  The properties every object inherits from \<open>Object.prototype\<close>: the standard methods,
  \<open>constructor\<close>, and the accessor \<open>__proto__\<close>, which yields the prototype object
  itself (an object with no enumerable property of its own).
\<close>

definition object_prototype :: "string \<Rightarrow> jsval" where
  "object_prototype k =
     (if k = ''constructor'' then JFun ''Object''
      else if k \<in> set [''hasOwnProperty'', ''isPrototypeOf'', ''propertyIsEnumerable'',
                         ''toLocaleString'', ''toString'', ''valueOf'',
                         ''__defineGetter__'', ''__defineSetter__'',
                         ''__lookupGetter__'', ''__lookupSetter__'']
      then JFun k
      else if k = ''__proto__'' then JObj []
      else JUndefined)"

text \<open>\<open>obj[k]\<close> on a plain object: the own property, else the inherited one, else
  \<open>undefined\<close>.\<close>

definition js_get :: "(string \<times> jsval) list \<Rightarrow> string \<Rightarrow> jsval" where
  "js_get obj k = (case map_of obj k of Some v \<Rightarrow> v | None \<Rightarrow> object_prototype k)"

definition object_keys :: "(string \<times> jsval) list \<Rightarrow> string list" where
  "object_keys obj = map fst obj"

definition object_values :: "(string \<times> jsval) list \<Rightarrow> jsval list" where
  "object_values obj = map snd obj"

section \<open>helpers/sql.js\<close>

text \<open>
  The translation table \<open>jsToSql\<close> is documented as an object mapping property names to
  column names. The values it stores are strings or other scalars: on them the ToString
  of a template literal never throws. The argument itself is such an object, or is
  missing (\<open>undefined\<close>) or \<open>null\<close>.
\<close>

datatype scalar = SUndefined | SNull | SBool bool | SNum "54 word" | SNaN | SStr string

fun scalar_val :: "scalar \<Rightarrow> jsval" where
  "scalar_val SUndefined = JUndefined"
| "scalar_val SNull = JNull"
| "scalar_val (SBool b) = JBool b"
| "scalar_val (SNum n) = JNum n"
| "scalar_val SNaN = JNaN"
| "scalar_val (SStr s) = JStr s"

datatype table = TUndefined | TNull | TObject "(string \<times> scalar) list"

text \<open>\<open>jsToSql[k]\<close> on a table object: the own property, else the inherited one, else
  \<open>undefined\<close>.\<close>

definition table_get :: "(string \<times> scalar) list \<Rightarrow> string \<Rightarrow> jsval" where
  "table_get jsToSql k =
     (case map_of jsToSql k of Some v \<Rightarrow> scalar_val v | None \<Rightarrow> object_prototype k)"

text \<open>
  The callback of \<open>keys.map\<close>, on a table object:
  \<^verbatim>\<open>(colName, idx) => `"${jsToSql[colName] || colName}"=$${idx + 1}`\<close>
\<close>

definition column :: "(string \<times> scalar) list \<Rightarrow> string \<Rightarrow> string" where
  "column jsToSql colName = to_string (js_or (table_get jsToSql colName) (JStr colName))"

definition fragment :: "(string \<times> scalar) list \<Rightarrow> string \<Rightarrow> nat \<Rightarrow> string" where
  "fragment jsToSql colName idx =
     ''\"'' @ column jsToSql colName @ ''\"=$'' @ dec (idx + 1)"

text \<open>\<open>const cols = keys.map(...)\<close>: the callback on every key with its index.\<close>

definition cols :: "(string \<times> jsval) list \<Rightarrow> (string \<times> scalar) list \<Rightarrow> string list" where
  "cols dataToUpdate jsToSql =
     map (\<lambda>(idx, colName). fragment jsToSql colName idx)
       (enumerate 0 (object_keys dataToUpdate))"

text \<open>
  The TypeError of a property read on \<open>undefined\<close> or \<open>null\<close>, as \<open>jsToSql[colName]\<close>
  throws it.
\<close>

definition cannot_read :: "string \<Rightarrow> string \<Rightarrow> error" where
  "cannot_read what k =
     TypeError (''Cannot read properties of '' @ what @ '' (reading '' @ [CHR 0x27] @ k @
       [CHR 0x27] @ '')'')"

text \<open>
  \<open>sqlForPartialUpdate(dataToUpdate, jsToSql)\<close>: throws the BadRequestError on an object
  with no key (\<open>keys.length === 0\<close>). Otherwise \<open>keys.map\<close> runs the callback, from the
  first key on: its property read throws when \<open>jsToSql\<close> is \<open>undefined\<close> or \<open>null\<close>; on a
  table object it returns the object \<open>{ setCols, values }\<close>.
\<close>

definition sqlForPartialUpdate ::
  "(string \<times> jsval) list \<Rightarrow> table \<Rightarrow> error + (string \<times> jsval) list" where
  "sqlForPartialUpdate dataToUpdate jsToSql =
     (case object_keys dataToUpdate of
        [] \<Rightarrow> Inl (BadRequestError ''No data'')
      | colName # _ \<Rightarrow>
          (case jsToSql of
             TUndefined \<Rightarrow> Inl (cannot_read ''undefined'' colName)
           | TNull \<Rightarrow> Inl (cannot_read ''null'' colName)
           | TObject tbl \<Rightarrow>
               Inr [(''setCols'', JStr (join '', '' (cols dataToUpdate tbl))),
                    (''values'', JArr (object_values dataToUpdate))]))"

section \<open>The database\<close>

text \<open>
  \<open>db.query(text, params)\<close> is the only way the models reach the relational store. It
  is a parameter of every model: given the statement's text, its bound values and the
  state of the database, it either rejects (an error) or resolves to the rows of the
  result, and leaves a new state. A row is a plain object.
\<close>

type_synonym row = "(string \<times> jsval) list"

type_synonym 'db db_query =
  "string \<Rightarrow> jsval list \<Rightarrow> 'db \<Rightarrow> (error + row list) \<times> 'db"

text \<open>
  A database that answers every statement by \<open>answer\<close> and keeps, as its state, the
  log of the statements it was sent.
\<close>

definition recording ::
  "(string \<Rightarrow> jsval list \<Rightarrow> error + row list) \<Rightarrow> (string \<times> jsval list) list db_query" where
  "recording answer sql params log = (answer sql params, log @ [(sql, params)])"

text \<open>\<open>obj.k = v\<close> on a plain object: an own property keeps its place, a new one comes
  last.\<close>

definition js_set :: "(string \<times> jsval) list \<Rightarrow> string \<Rightarrow> jsval \<Rightarrow> (string \<times> jsval) list" where
  "js_set obj k v =
     (if k \<in> set (map fst obj) then map (\<lambda>(k', v'). if k' = k then (k', v) else (k', v')) obj
      else obj @ [(k, v)])"

section \<open>models/job.js\<close>

subsection \<open>Job.get\<close>

definition job_get_sql :: string where
  "job_get_sql =
     ''SELECT id, title, salary, equity, company_handle AS \"companyHandle\"\<newline>      FROM jobs\<newline>      WHERE if = $1''"

definition job_company_sql :: string where
  "job_company_sql =
     ''\<newline>    SELECT handle, name, description, num_employees AS \"numEmployees\", logo_url AS \"logoUrl\"\<newline>    FROM companies\<newline>    WHERE handle = $1''"

text \<open>
  \<open>Job.get(id)\<close>. \<open>rows[0]\<close> of an empty result is \<open>undefined\<close>, the only falsy
  case, since a row is an object.
\<close>

definition Job_get :: "'db db_query \<Rightarrow> jsval \<Rightarrow> 'db \<Rightarrow> (error + row) \<times> 'db" where
  "Job_get query id' db =
     (case query job_get_sql [id'] db of
        (Inl e, db1) \<Rightarrow> (Inl e, db1)
      | (Inr jobsResults, db1) \<Rightarrow>
          (case jobsResults of
             [] \<Rightarrow> (Inl (NotFoundError (''Could not find job '' @ to_string id')), db1)
           | job # _ \<Rightarrow>
               (case query job_company_sql [js_get job ''companyHandle''] db1 of
                  (Inl e, db2) \<Rightarrow> (Inl e, db2)
                | (Inr companiesResults, db2) \<Rightarrow>
                    (Inr (js_set job ''company''
                       (case companiesResults of [] \<Rightarrow> JUndefined | c # _ \<Rightarrow> JObj c)), db2))))"

subsection \<open>Job.update\<close>

definition job_update_sql :: "jsval \<Rightarrow> string \<Rightarrow> string" where
  "job_update_sql setCols idIndex =
     ''UPDATE jobs\<newline>    SET '' @ to_string setCols @ ''\<newline>    WHERE id = '' @ idIndex @
     ''\<newline>    RETURNING id, title, salary, equity, company_handle AS \"companyHandle\"''"

text \<open>
  The statements of \<open>Job.update\<close> after the destructuring, for a value \<open>vals\<close>:
  \<^verbatim>\<open>const idIndex = '$' + (vals.length + 1)\<close> throws a TypeError when \<open>vals\<close> is
  \<open>undefined\<close> or \<open>null\<close>; the spread \<^verbatim>\<open>[...vals, id]\<close> throws one when \<open>vals\<close> is
  not iterable; an array or a string goes on to \<open>db.query\<close>.
\<close>

definition update_with ::
  "'db db_query \<Rightarrow> jsval \<Rightarrow> jsval \<Rightarrow> jsval \<Rightarrow> 'db \<Rightarrow> (error + row) \<times> 'db" where
  "update_with query id' setCols vals db =
     (let run = (\<lambda>elems.
        let idIndex = ''$'' @ dec (length elems + 1);
            querySql = job_update_sql setCols idIndex
        in (case query querySql (elems @ [id']) db of
              (Inl e, db1) \<Rightarrow> (Inl e, db1)
            | (Inr rows, db1) \<Rightarrow>
                (case rows of
                   [] \<Rightarrow> (Inl (NotFoundError (''Could not find job '' @ to_string id')), db1)
                 | job # _ \<Rightarrow> (Inr job, db1))))
      in case vals of
           JUndefined \<Rightarrow>
             (Inl (TypeError ''Cannot read properties of undefined (reading 'length')''), db)
         | JNull \<Rightarrow>
             (Inl (TypeError ''Cannot read properties of null (reading 'length')''), db)
         | JArr xs \<Rightarrow> run xs
         | JStr s \<Rightarrow> run (map (\<lambda>c. JStr [c]) s)
         | _ \<Rightarrow> (Inl (TypeError ''vals is not iterable''), db))"

text \<open>
  \<open>Job.update(id, data)\<close>:
  \<^verbatim>\<open>const { setCols, vals } = sqlForPartialUpdate(data, {})\<close> reads the properties
  \<open>setCols\<close> and \<open>vals\<close> of the returned object.
\<close>

definition Job_update :: "'db db_query \<Rightarrow> jsval \<Rightarrow> (string \<times> jsval) list \<Rightarrow> 'db \<Rightarrow> (error + row) \<times> 'db" where
  "Job_update query id' data db =
     (case sqlForPartialUpdate data (TObject []) of
        Inl e \<Rightarrow> (Inl e, db)
      | Inr res \<Rightarrow> update_with query id' (js_get res ''setCols'') (js_get res ''vals'') db)"

subsection \<open>Job.findAll\<close>

text \<open>
  A variable binding, \<open>const\<close> or \<open>let\<close>, with its value. An assignment to a \<open>const\<close>
  binding throws a TypeError; \<open>x += s\<close> reads the binding, concatenates and assigns.
\<close>

datatype 'a binding = ConstBinding 'a | LetBinding 'a

fun binding_value :: "'a binding \<Rightarrow> 'a" where
  "binding_value (ConstBinding v) = v"
| "binding_value (LetBinding v) = v"

fun assign :: "'a binding \<Rightarrow> 'a \<Rightarrow> error + 'a binding" where
  "assign (ConstBinding _) v = Inl (TypeError ''Assignment to constant variable.'')"
| "assign (LetBinding _) v = Inr (LetBinding v)"

definition append_assign :: "string binding \<Rightarrow> string \<Rightarrow> error + string binding" where
  "append_assign b s = assign b (binding_value b @ s)"

definition job_findAll_sql :: string where
  "job_findAll_sql =
     ''SELECT j.id, j.title, j.salary, j.equity, j.company_handle AS \"companyHandle\", c.name AS \"companyName\"\<newline>    FROM jobs j\<newline>    LEFT JOIN companies AS c on c.handle = j.company_handle''"

text \<open>
  The parameter \<^verbatim>\<open>{ minSalary, hasEquity, title } = {}\<close>: an absent (\<open>undefined\<close>)
  argument is the empty object; destructuring \<open>null\<close> throws; a plain object gives its
  three properties; any other value has none of them.
\<close>

definition findAll_params :: "jsval \<Rightarrow> error + jsval \<times> jsval \<times> jsval" where
  "findAll_params arg =
     (case arg of
        JUndefined \<Rightarrow> Inr (js_get [] ''minSalary'', js_get [] ''hasEquity'', js_get [] ''title'')
      | JNull \<Rightarrow> Inl (TypeError ''Cannot destructure 'object null' as it is null.'')
      | JObj ps \<Rightarrow> Inr (js_get ps ''minSalary'', js_get ps ''hasEquity'', js_get ps ''title'')
      | _ \<Rightarrow> Inr (JUndefined, JUndefined, JUndefined))"

definition Job_findAll :: "'db db_query \<Rightarrow> jsval \<Rightarrow> 'db \<Rightarrow> (error + row list) \<times> 'db" where
  "Job_findAll db_query arg db =
     (case findAll_params arg of
        Inl e \<Rightarrow> (Inl e, db)
      | Inr (minSalary, hasEquity, title) \<Rightarrow>
          (let query = ConstBinding job_findAll_sql;
               whereClauses = [];
               queryVals = [];
               queryVals = (if minSalary \<noteq> JUndefined then queryVals @ [minSalary] else queryVals);
               whereClauses = (if minSalary \<noteq> JUndefined
                  then whereClauses @ [''salary >= $'' @ dec (length queryVals)]
                  else whereClauses);
               whereClauses = (if hasEquity = JBool True
                  then whereClauses @ [''equity > 0''] else whereClauses);
               queryVals = (if title \<noteq> JUndefined
                  then queryVals @ [JStr (''%'' @ to_string title @ ''%'')] else queryVals);
               whereClauses = (if title \<noteq> JUndefined
                  then whereClauses @ [''title ILIKE $'' @ dec (length queryVals)]
                  else whereClauses)
           in case (if length whereClauses > 0
                    then append_assign query ('' WHERE '' @ join '' AND '' whereClauses)
                    else Inr query) of
                Inl e \<Rightarrow> (Inl e, db)
              | Inr query \<Rightarrow>
                  (case append_assign query '' ORDER BY title'' of
                     Inl e \<Rightarrow> (Inl e, db)
                   | Inr query \<Rightarrow> db_query (binding_value query) queryVals db)))"

section \<open>models/company.js\<close>

text \<open>
  \<open>Company.findByFilters(minEmployees, maxEmployees, nameLike)\<close>. The built-ins
  \<open>parseInt\<close>, the comparison \<open>>\<close> of two numbers and \<open>String.prototype.toLowerCase\<close>
  are parameters. \<open>nameLike.toLowerCase()\<close> throws a TypeError on a truthy value that
  is not a string, no value of the model being an object with a method \<open>toLowerCase\<close>.
  The function is in three parts: the check of the two bounds, the statement and its
  bound values as the three conditions build them, and the call of the database.
\<close>

definition findByFilters_check ::
  "(jsval \<Rightarrow> 'n) \<Rightarrow> ('n \<Rightarrow> 'n \<Rightarrow> bool) \<Rightarrow> jsval \<Rightarrow> jsval \<Rightarrow> bool" where
  "findByFilters_check parseInt gt minEmployees maxEmployees =
     (truthy minEmployees \<and> truthy maxEmployees \<and>
      gt (parseInt minEmployees) (parseInt maxEmployees))"

definition findByFilters_sql ::
  "(string \<Rightarrow> string) \<Rightarrow> jsval \<Rightarrow> jsval \<Rightarrow> jsval \<Rightarrow> error + string \<times> jsval list" where
  "findByFilters_sql toLowerCase minEmployees maxEmployees nameLike =
     (let query = ''SELECT * FROM companies WHERE 1 = 1'';
          queryParams = [];
          queryParams = (if truthy minEmployees then queryParams @ [minEmployees] else queryParams);
          query = (if truthy minEmployees
             then query @ '' AND num_employees >= $'' @ dec (length queryParams) else query);
          queryParams = (if truthy maxEmployees then queryParams @ [maxEmployees] else queryParams);
          query = (if truthy maxEmployees
             then query @ '' AND num_employees <= $'' @ dec (length queryParams) else query)
      in if truthy nameLike then
           (case nameLike of
              JStr s \<Rightarrow>
                (let queryParams = queryParams @ [JStr (''%'' @ toLowerCase s @ ''%'')];
                     query = query @ '' AND LOWER(name) LIKE $'' @ dec (length queryParams)
                 in Inr (query, queryParams))
            | _ \<Rightarrow> Inl (TypeError ''nameLike.toLowerCase is not a function''))
         else Inr (query, queryParams))"

definition Company_findByFilters ::
  "(jsval \<Rightarrow> 'n) \<Rightarrow> ('n \<Rightarrow> 'n \<Rightarrow> bool) \<Rightarrow> (string \<Rightarrow> string) \<Rightarrow> 'db db_query \<Rightarrow>
   jsval \<Rightarrow> jsval \<Rightarrow> jsval \<Rightarrow> 'db \<Rightarrow> (error + row list) \<times> 'db" where
  "Company_findByFilters parseInt gt toLowerCase db_query minEmployees maxEmployees nameLike db =
     (if findByFilters_check parseInt gt minEmployees maxEmployees
      then (Inl (BadRequestError ''min employees cannot be greater than max employees''), db)
      else (case findByFilters_sql toLowerCase minEmployees maxEmployees nameLike of
              Inl e \<Rightarrow> (Inl e, db)
            | Inr (query, queryParams) \<Rightarrow> db_query query queryParams db))"

section \<open>Properties of the clause builder\<close>

subsection \<open>Decimal numerals are distinct\<close>

lemma dec_not_Nil: "dec n \<noteq> []"
  by (subst dec.simps) simp

lemma digit_inj: "a < 10 \<Longrightarrow> b < 10 \<Longrightarrow> digit a = digit b \<Longrightarrow> a = b"
proof -
  assume a: "a < 10" and b: "b < 10" and e: "digit a = digit b"
  from e have "of_char (char_of (48 + a) :: char) = (of_char (char_of (48 + b) :: char) :: nat)"
    by (simp add: digit_def)
  with a b show "a = b" by (simp add: of_char_of)
qed

lemma dec_inj: "dec n = dec m \<Longrightarrow> n = m"
proof (induction n arbitrary: m rule: dec.induct)
  case (1 n)
  show ?case
  proof (cases "n < 10")
    case True
    then have n: "dec n = [digit n]" by (subst dec.simps) simp
    show ?thesis
    proof (cases "m < 10")
      case True
      then have "dec m = [digit m]" by (subst dec.simps) simp
      with n "1.prems" have "digit n = digit m" by simp
      with \<open>n < 10\<close> True show ?thesis by (rule digit_inj)
    next
      case False
      then have "dec m = dec (m div 10) @ [digit (m mod 10)]" by (subst dec.simps) simp
      with n "1.prems" have "[digit n] = dec (m div 10) @ [digit (m mod 10)]" by simp
      then have "dec (m div 10) = []" by (cases "dec (m div 10)") auto
      then show ?thesis by (simp add: dec_not_Nil)
    qed
  next
    case False
    then have n: "dec n = dec (n div 10) @ [digit (n mod 10)]" by (subst dec.simps) simp
    show ?thesis
    proof (cases "m < 10")
      case True
      then have "dec m = [digit m]" by (subst dec.simps) simp
      with n "1.prems" have "[digit m] = dec (n div 10) @ [digit (n mod 10)]" by simp
      then have "dec (n div 10) = []" by (cases "dec (n div 10)") auto
      then show ?thesis by (simp add: dec_not_Nil)
    next
      case m: False
      then have "dec m = dec (m div 10) @ [digit (m mod 10)]" by (subst dec.simps) simp
      with n "1.prems" have e: "dec (n div 10) = dec (m div 10)"
        and d: "digit (n mod 10) = digit (m mod 10)" by simp_all
      from "1.IH" [OF False e] have q: "n div 10 = m div 10" .
      from d have r: "n mod 10 = m mod 10" by (intro digit_inj) simp_all
      from q r show ?thesis by (metis div_mult_mod_eq)
    qed
  qed
qed

lemma distinct_dec: "distinct (map dec [i..<j])"
  by (simp add: distinct_map inj_on_def) (blast dest: dec_inj)

subsection \<open>The fragments, key by key\<close>

lemma cols_zip:
  "cols d t = map2 (\<lambda>k i. fragment t k (i - 1)) (object_keys d) [1..<Suc (length d)]"
proof (rule nth_equalityI)
  show "length (cols d t) =
      length (map2 (\<lambda>k i. fragment t k (i - 1)) (object_keys d) [1..<Suc (length d)])"
    by (simp add: cols_def object_keys_def del: upt_Suc)
next
  fix i assume "i < length (cols d t)"
  then have i: "i < length d" by (simp add: cols_def object_keys_def)
  then show "cols d t ! i =
      map2 (\<lambda>k i. fragment t k (i - 1)) (object_keys d) [1..<Suc (length d)] ! i"
    by (simp add: cols_def object_keys_def nth_enumerate_eq del: upt_Suc)
qed

lemma sqlForPartialUpdate_nonempty:
  "d \<noteq> [] \<Longrightarrow> sqlForPartialUpdate d (TObject t) =
     Inr [(''setCols'', JStr (join '', '' (cols d t))), (''values'', JArr (object_values d))]"
  by (cases d) (simp_all add: sqlForPartialUpdate_def object_keys_def)

text \<open>
  C1. For a non-empty update request with N keys and a table object, the builder
  returns the object whose \<open>setCols\<close> is the text of exactly N fragments, in the order of
  the request's keys, each but the last followed by a comma and a space, and whose
  \<open>values\<close> holds exactly the N values of the request, in the same order and as they
  stand: fragment i is the one of key i, with placeholder i + 1, and value i is the
  value of key i.
\<close>

theorem sqlForPartialUpdate_aligned:
  assumes "dataToUpdate \<noteq> []"
  shows "let N = length (object_keys dataToUpdate);
             fragments = map (\<lambda>i. ''\"'' @ column jsToSql (object_keys dataToUpdate ! i) @
                                    ''\"=$'' @ dec (i + 1)) [0..<N];
             vals = map (\<lambda>i. snd (dataToUpdate ! i)) [0..<N]
         in sqlForPartialUpdate dataToUpdate (TObject jsToSql) =
              Inr [(''setCols'',
                    JStr (concat (map (\<lambda>f. f @ '', '') (butlast fragments)) @ last fragments)),
                   (''values'', JArr vals)] \<and>
            length fragments = N \<and> length vals = N \<and>
            map fst dataToUpdate = object_keys dataToUpdate \<and>
            map snd dataToUpdate = vals"
proof -
  let ?N = "length (object_keys dataToUpdate)"
  let ?F = "map (\<lambda>i. ''\"'' @ column jsToSql (object_keys dataToUpdate ! i) @
                        ''\"=$'' @ dec (i + 1)) [0..<?N]"
  let ?V = "map (\<lambda>i. snd (dataToUpdate ! i)) [0..<?N]"
  have F: "cols dataToUpdate jsToSql = ?F"
    by (rule nth_equalityI)
      (simp_all add: cols_def object_keys_def nth_enumerate_eq fragment_def)
  have V: "object_values dataToUpdate = ?V"
    by (rule nth_equalityI) (simp_all add: object_values_def object_keys_def)
  have concat_join:
    "xs \<noteq> [] \<Longrightarrow> join sep xs = concat (map (\<lambda>x. x @ sep) (butlast xs)) @ last xs"
    for sep xs
    by (induction sep xs rule: join.induct) simp_all
  from assms have "length ?F \<noteq> 0" by (simp add: object_keys_def)
  then have ne: "?F \<noteq> []" by (simp only: length_0_conv not_False_eq_True)
  have j: "join '', '' ?F = concat (map (\<lambda>f. f @ '', '') (butlast ?F)) @ last ?F"
    using ne by (rule concat_join)
  from assms have "sqlForPartialUpdate dataToUpdate (TObject jsToSql) =
      Inr [(''setCols'', JStr (join '', '' (cols dataToUpdate jsToSql))),
           (''values'', JArr (object_values dataToUpdate))]"
    by (cases dataToUpdate) (simp_all add: sqlForPartialUpdate_def object_keys_def)
  then have r: "sqlForPartialUpdate dataToUpdate (TObject jsToSql) =
      Inr [(''setCols'', JStr (concat (map (\<lambda>f. f @ '', '') (butlast ?F)) @ last ?F)),
           (''values'', JArr ?V)]"
    unfolding F V j .
  have lF: "length ?F = ?N" by simp
  have lV: "length ?V = ?N" by simp
  have k: "map fst dataToUpdate = object_keys dataToUpdate" by (simp add: object_keys_def)
  have v: "map snd dataToUpdate = ?V" using V by (simp add: object_values_def)
  from r lF lV k v show ?thesis unfolding Let_def by blast
qed

theorem sqlForPartialUpdate_aligned_witness:
  "[(''name'', JStr ''Acme''), (''description'', JNull), (''numEmployees'', JNum 7),
    (''logoUrl'', JStr [])] \<noteq> [] \<and>
   sqlForPartialUpdate
       [(''name'', JStr ''Acme''), (''description'', JNull), (''numEmployees'', JNum 7),
        (''logoUrl'', JStr [])]
       (TObject [(''numEmployees'', SStr ''num_employees''), (''logoUrl'', SStr ''logo_url'')]) =
     Inr [(''setCols'',
           JStr ''\"name\"=$1, \"description\"=$2, \"num_employees\"=$3, \"logo_url\"=$4''),
          (''values'', JArr [JStr ''Acme'', JNull, JNum 7, JStr []])]"
proof -
  let ?d = "[(''name'', JStr ''Acme''), (''description'', JNull), (''numEmployees'', JNum 7),
             (''logoUrl'', JStr [])]"
  let ?t = "[(''numEmployees'', SStr ''num_employees''), (''logoUrl'', SStr ''logo_url'')]"
  let ?F = "map (\<lambda>i. ''\"'' @ column ?t (object_keys ?d ! i) @ ''\"=$'' @ dec (i + 1))
              [0..<length (object_keys ?d)]"
  have ne: "?d \<noteq> []" by simp
  have f: "concat (map (\<lambda>f. f @ '', '') (butlast ?F)) @ last ?F =
      ''\"name\"=$1, \"description\"=$2, \"num_employees\"=$3, \"logo_url\"=$4''"
    by code_simp
  have v: "map (\<lambda>i. snd (?d ! i)) [0..<length (object_keys ?d)] =
      [JStr ''Acme'', JNull, JNum 7, JStr []]"
    by code_simp
  have run: "sqlForPartialUpdate ?d (TObject ?t) =
      Inr [(''setCols'',
            JStr ''\"name\"=$1, \"description\"=$2, \"num_employees\"=$3, \"logo_url\"=$4''),
           (''values'', JArr [JStr ''Acme'', JNull, JNum 7, JStr []])]"
    by code_simp
  from sqlForPartialUpdate_aligned [OF ne, of ?t] run show ?thesis
    unfolding Let_def f v by simp
qed



text \<open>
  C4. The fragments of a request with N keys carry the placeholder indices 1, ..., N in
  order: the i-th fragment is the double-quoted column of the i-th key, an equals sign,
  a dollar sign and the decimal numeral of i. The N numerals are pairwise distinct.
\<close>

theorem sqlForPartialUpdate_placeholders:
  assumes "dataToUpdate \<noteq> []"
  shows "sqlForPartialUpdate dataToUpdate (TObject jsToSql) =
           Inr [(''setCols'', JStr (join '', ''
                  (map2 (\<lambda>colName i. ''\"'' @ column jsToSql colName @ ''\"=$'' @ dec i)
                     (object_keys dataToUpdate) [1..<Suc (length (object_keys dataToUpdate))]))),
                (''values'', JArr (object_values dataToUpdate))] \<and>
         distinct (map dec [1..<Suc (length (object_keys dataToUpdate))])"
proof
  have "cols dataToUpdate jsToSql =
      map2 (\<lambda>k i. fragment jsToSql k (i - 1)) (object_keys dataToUpdate)
        [1..<Suc (length dataToUpdate)]"
    by (rule cols_zip)
  also have "\<dots> = map2 (\<lambda>colName i. ''\"'' @ column jsToSql colName @ ''\"=$'' @ dec i)
      (object_keys dataToUpdate) [1..<Suc (length dataToUpdate)]"
  proof (rule map_cong [OF refl])
    fix x assume "x \<in> set (zip (object_keys dataToUpdate) [1..<Suc (length dataToUpdate)])"
    then have "snd x \<in> set [1..<Suc (length dataToUpdate)]"
      by (metis prod.collapse set_zip_rightD)
    then have "Suc (snd x - 1) = snd x" by (simp del: upt_Suc)
    then show "(case x of (k, i) \<Rightarrow> fragment jsToSql k (i - 1)) =
        (case x of (colName, i) \<Rightarrow> ''\"'' @ column jsToSql colName @ ''\"=$'' @ dec i)"
      by (cases x) (simp add: fragment_def)
  qed
  finally show "sqlForPartialUpdate dataToUpdate (TObject jsToSql) =
           Inr [(''setCols'', JStr (join '', ''
                  (map2 (\<lambda>colName i. ''\"'' @ column jsToSql colName @ ''\"=$'' @ dec i)
                     (object_keys dataToUpdate) [1..<Suc (length (object_keys dataToUpdate))]))),
                (''values'', JArr (object_values dataToUpdate))]"
    using assms by (simp add: sqlForPartialUpdate_nonempty) (simp add: object_keys_def)
  show "distinct (map dec [1..<Suc (length (object_keys dataToUpdate))])"
    by (rule distinct_dec)
qed

theorem sqlForPartialUpdate_placeholders_witness:
  "[(''firstName'', JStr ''Aliya''), (''age'', JNum 32)] \<noteq> [] \<and>
   sqlForPartialUpdate [(''firstName'', JStr ''Aliya''), (''age'', JNum 32)]
       (TObject [(''firstName'', SStr ''first_name'')]) =
     Inr [(''setCols'', JStr ''\"first_name\"=$1, \"age\"=$2''),
          (''values'', JArr [JStr ''Aliya'', JNum 32])]"
proof -
  let ?d = "[(''firstName'', JStr ''Aliya''), (''age'', JNum 32)]"
  let ?t = "[(''firstName'', SStr ''first_name'')]"
  have ne: "?d \<noteq> []" by simp
  have "join '', '' (map2 (\<lambda>colName i. ''\"'' @ column ?t colName @ ''\"=$'' @ dec i)
          (object_keys ?d) [1..<Suc (length (object_keys ?d))]) =
        ''\"first_name\"=$1, \"age\"=$2''"
    by code_simp
  moreover have "object_values ?d = [JStr ''Aliya'', JNum 32]"
    by (simp add: object_values_def)
  moreover have "sqlForPartialUpdate ?d (TObject ?t) =
      Inr [(''setCols'', JStr ''\"first_name\"=$1, \"age\"=$2''),
           (''values'', JArr [JStr ''Aliya'', JNum 32])]"
    by code_simp
  ultimately show ?thesis
    using sqlForPartialUpdate_placeholders [OF ne, of ?t] by simp
qed

text \<open>
  C5. The example of the test suite: the request \<open>{firstName: "Miss", lastName: "Kitty"}\<close>
  with the table \<open>{firstName: "first_name", lastName: "last_name"}\<close>.
\<close>

theorem sqlForPartialUpdate_example:
  "cols [(''firstName'', JStr ''Miss''), (''lastName'', JStr ''Kitty'')]
       [(''firstName'', SStr ''first_name''), (''lastName'', SStr ''last_name'')] =
     [''\"first_name\"=$1'', ''\"last_name\"=$2''] \<and>
   sqlForPartialUpdate [(''firstName'', JStr ''Miss''), (''lastName'', JStr ''Kitty'')]
       (TObject [(''firstName'', SStr ''first_name''), (''lastName'', SStr ''last_name'')]) =
     Inr [(''setCols'', JStr ''\"first_name\"=$1, \"last_name\"=$2''),
          (''values'', JArr [JStr ''Miss'', JStr ''Kitty''])]"
  by code_simp




text \<open>
  C7. The first statement \<open>Job.get\<close> sends to the database is its lookup by id, with
  the given id as the one bound value; the text of that statement selects from the jobs
  table and ends in \<open>WHERE if = $1\<close>: the column it filters on is named \<open>if\<close>, and no
  \<open>WHERE id\<close> occurs in it.
\<close>

theorem Job_get_filters_on_if:
  "(\<exists>rest. snd (Job_get (recording answer) id' []) = (job_get_sql, [id']) # rest) \<and>
   suffix ''WHERE if = $1'' job_get_sql \<and>
   \<not> sublist ''WHERE id'' job_get_sql \<and>
   sublist ''FROM jobs'' job_get_sql"
proof (intro conjI)
  show "\<exists>rest. snd (Job_get (recording answer) id' []) = (job_get_sql, [id']) # rest"
    by (auto simp: Job_get_def recording_def split: sum.splits list.splits prod.splits)
  show "suffix ''WHERE if = $1'' job_get_sql" by code_simp
  show "\<not> sublist ''WHERE id'' job_get_sql" by code_simp
  show "sublist ''FROM jobs'' job_get_sql" by code_simp
qed

text \<open>
  C8. For every id and every data object with at least one key, the object
  \<open>sqlForPartialUpdate\<close> returns has the properties \<open>setCols\<close> and \<open>values\<close> only, so the
  destructured \<open>vals\<close> is \<open>undefined\<close>; \<open>Job.update\<close> throws the TypeError of
  \<open>vals.length\<close>, and the database, whatever it is, is in the state it was in: no
  statement was sent to it.
\<close>

theorem Job_update_TypeError:
  assumes "data \<noteq> []"
  shows "\<exists>res. sqlForPartialUpdate data (TObject []) = Inr res \<and>
           map fst res = [''setCols'', ''values''] \<and>
           js_get res ''vals'' = JUndefined \<and>
           Job_update query id' data db =
             (Inl (TypeError ''Cannot read properties of undefined (reading 'length')''), db)"
  using assms
  by (simp add: Job_update_def sqlForPartialUpdate_nonempty update_with_def js_get_def
      object_prototype_def)

theorem Job_update_TypeError_witness:
  "[(''title'', JStr ''New'')] \<noteq> [] \<and>
   Job_update (recording (\<lambda>sql params. Inr [[(''id'', JNum 1)]])) (JNum 1)
       [(''title'', JStr ''New'')] [] =
     (Inl (TypeError ''Cannot read properties of undefined (reading 'length')''), [])"
proof -
  have ne: "[(''title'', JStr ''New'')] \<noteq> []" by simp
  from Job_update_TypeError
    [OF ne, of "recording (\<lambda>sql params. Inr [[(''id'', JNum 1)]])" "JNum 1" "[]"]
  show ?thesis by blast
qed

text \<open>
  C9. Whatever its argument and whatever the database, \<open>Job.findAll\<close> fails with a
  TypeError and leaves the database in the state it was in: the assignment
  \<open>query += ' ORDER BY title'\<close> to the \<open>const\<close> binding throws (or, before it, the
  \<open>WHERE\<close> one, or the destructuring of a \<open>null\<close> argument). It never returns rows.
\<close>

theorem Job_findAll_always_fails:
  "Job_findAll db_query arg db =
     (Inl (TypeError (if arg = JNull then ''Cannot destructure 'object null' as it is null.''
                      else ''Assignment to constant variable.'')), db)"
  by (auto simp: Job_findAll_def findAll_params_def append_assign_def Let_def
      split: sum.splits jsval.splits prod.splits if_splits)

subsection \<open>Falsy bounds of the company filter\<close>

lemma sql_falsy_min:
  "\<not> truthy minE \<Longrightarrow>
   findByFilters_sql L minE maxE nameLike = findByFilters_sql L JUndefined maxE nameLike"
  by (simp add: findByFilters_sql_def)

lemma sql_falsy_max:
  "\<not> truthy maxE \<Longrightarrow>
   findByFilters_sql L minE maxE nameLike = findByFilters_sql L minE JUndefined nameLike"
  by (simp add: findByFilters_sql_def)

lemma dec1: "dec (Suc 0) = ''1''"
  by code_simp

lemma dec2: "dec (Suc (Suc 0)) = ''2''"
  by code_simp

lemma no_min_clause:
  assumes "\<not> truthy minE" and "findByFilters_sql L minE maxE nameLike = Inr (sql, params)"
  shows "\<not> sublist ''num_employees >='' sql"
proof -
  from assms have "sql \<in> {''SELECT * FROM companies WHERE 1 = 1'',
     ''SELECT * FROM companies WHERE 1 = 1 AND num_employees <= $1'',
     ''SELECT * FROM companies WHERE 1 = 1 AND LOWER(name) LIKE $1'',
     ''SELECT * FROM companies WHERE 1 = 1 AND num_employees <= $1 AND LOWER(name) LIKE $2''}"
    by (auto simp: findByFilters_sql_def Let_def dec1 dec2 split: if_splits jsval.splits)
  moreover have "\<not> sublist ''num_employees >='' ''SELECT * FROM companies WHERE 1 = 1''"
    by code_simp
  moreover have "\<not> sublist ''num_employees >=''
      ''SELECT * FROM companies WHERE 1 = 1 AND num_employees <= $1''"
    by code_simp
  moreover have "\<not> sublist ''num_employees >=''
      ''SELECT * FROM companies WHERE 1 = 1 AND LOWER(name) LIKE $1''"
    by code_simp
  moreover have "\<not> sublist ''num_employees >=''
      ''SELECT * FROM companies WHERE 1 = 1 AND num_employees <= $1 AND LOWER(name) LIKE $2''"
    by code_simp
  ultimately show ?thesis by auto
qed

lemma no_max_clause:
  assumes "\<not> truthy maxE" and "findByFilters_sql L minE maxE nameLike = Inr (sql, params)"
  shows "\<not> sublist ''num_employees <='' sql"
proof -
  from assms have "sql \<in> {''SELECT * FROM companies WHERE 1 = 1'',
     ''SELECT * FROM companies WHERE 1 = 1 AND num_employees >= $1'',
     ''SELECT * FROM companies WHERE 1 = 1 AND LOWER(name) LIKE $1'',
     ''SELECT * FROM companies WHERE 1 = 1 AND num_employees >= $1 AND LOWER(name) LIKE $2''}"
    by (auto simp: findByFilters_sql_def Let_def dec1 dec2 split: if_splits jsval.splits)
  moreover have "\<not> sublist ''num_employees <='' ''SELECT * FROM companies WHERE 1 = 1''"
    by code_simp
  moreover have "\<not> sublist ''num_employees <=''
      ''SELECT * FROM companies WHERE 1 = 1 AND num_employees >= $1''"
    by code_simp
  moreover have "\<not> sublist ''num_employees <=''
      ''SELECT * FROM companies WHERE 1 = 1 AND LOWER(name) LIKE $1''"
    by code_simp
  moreover have "\<not> sublist ''num_employees <=''
      ''SELECT * FROM companies WHERE 1 = 1 AND num_employees >= $1 AND LOWER(name) LIKE $2''"
    by code_simp
  ultimately show ?thesis by auto
qed

text \<open>
  C10. A falsy \<open>minEmployees\<close> (\<open>0\<close> for one) is an absent one: the check that the minimum
  does not exceed the maximum is not made, the statement built has no
  \<open>num_employees >=\<close> condition, and the call does what it does with \<open>undefined\<close> in its
  place. The same holds of a falsy \<open>maxEmployees\<close> and the \<open>num_employees <=\<close> condition.
\<close>

theorem Company_findByFilters_falsy_bounds:
  "(\<not> truthy minEmployees \<longrightarrow>
      \<not> findByFilters_check parseInt gt minEmployees maxEmployees \<and>
      (\<forall>sql params.
         findByFilters_sql toLowerCase minEmployees maxEmployees nameLike = Inr (sql, params) \<longrightarrow>
         \<not> sublist ''num_employees >='' sql) \<and>
      Company_findByFilters parseInt gt toLowerCase db_query minEmployees maxEmployees nameLike db =
        Company_findByFilters parseInt gt toLowerCase db_query JUndefined maxEmployees nameLike db) \<and>
   (\<not> truthy maxEmployees \<longrightarrow>
      \<not> findByFilters_check parseInt gt minEmployees maxEmployees \<and>
      (\<forall>sql params.
         findByFilters_sql toLowerCase minEmployees maxEmployees nameLike = Inr (sql, params) \<longrightarrow>
         \<not> sublist ''num_employees <='' sql) \<and>
      Company_findByFilters parseInt gt toLowerCase db_query minEmployees maxEmployees nameLike db =
        Company_findByFilters parseInt gt toLowerCase db_query minEmployees JUndefined nameLike db)"
proof (intro conjI impI allI)
  assume f: "\<not> truthy minEmployees"
  then show "\<not> findByFilters_check parseInt gt minEmployees maxEmployees"
    by (simp add: findByFilters_check_def)
  from f show
    "Company_findByFilters parseInt gt toLowerCase db_query minEmployees maxEmployees nameLike db =
     Company_findByFilters parseInt gt toLowerCase db_query JUndefined maxEmployees nameLike db"
    using sql_falsy_min [OF f, of toLowerCase maxEmployees nameLike]
    by (simp add: Company_findByFilters_def findByFilters_check_def)
next
  fix sql params
  assume "\<not> truthy minEmployees"
    and "findByFilters_sql toLowerCase minEmployees maxEmployees nameLike = Inr (sql, params)"
  then show "\<not> sublist ''num_employees >='' sql" by (rule no_min_clause)
next
  assume f: "\<not> truthy maxEmployees"
  then show "\<not> findByFilters_check parseInt gt minEmployees maxEmployees"
    by (simp add: findByFilters_check_def)
  from f show
    "Company_findByFilters parseInt gt toLowerCase db_query minEmployees maxEmployees nameLike db =
     Company_findByFilters parseInt gt toLowerCase db_query minEmployees JUndefined nameLike db"
    using sql_falsy_max [OF f, of toLowerCase minEmployees nameLike]
    by (simp add: Company_findByFilters_def findByFilters_check_def)
next
  fix sql params
  assume "\<not> truthy maxEmployees"
    and "findByFilters_sql toLowerCase minEmployees maxEmployees nameLike = Inr (sql, params)"
  then show "\<not> sublist ''num_employees <='' sql" by (rule no_max_clause)
qed

theorem Company_findByFilters_falsy_bounds_witness:
  "\<not> truthy (JNum 0) \<and>
   Company_findByFilters (\<lambda>v. case v of JNum n \<Rightarrow> sint n | _ \<Rightarrow> 0) (>) (\<lambda>s. s)
       (recording (\<lambda>sql params. Inr [])) (JNum 0) (JNum 5) JUndefined [] =
     (Inr [], [(''SELECT * FROM companies WHERE 1 = 1 AND num_employees <= $1'', [JNum 5])]) \<and>
   Company_findByFilters (\<lambda>v. case v of JNum n \<Rightarrow> sint n | _ \<Rightarrow> 0) (>) (\<lambda>s. s)
       (recording (\<lambda>sql params. Inr [])) (JNum 10) (JNum 0) JUndefined [] =
     (Inr [], [(''SELECT * FROM companies WHERE 1 = 1 AND num_employees >= $1'', [JNum 10])]) \<and>
   Company_findByFilters (\<lambda>v. case v of JNum n \<Rightarrow> sint n | _ \<Rightarrow> 0) (>) (\<lambda>s. s)
       (recording (\<lambda>sql params. Inr [])) (JNum 10) (JNum 5) JUndefined [] =
     (Inl (BadRequestError ''min employees cannot be greater than max employees''), [])"
proof -
  let ?P = "\<lambda>v. case v of JNum n \<Rightarrow> sint n | _ \<Rightarrow> (0::int)"
  let ?q = "recording (\<lambda>sql params. Inr [])"
  have a: "Company_findByFilters ?P (>) (\<lambda>s. s) ?q JUndefined (JNum 5) JUndefined [] =
     (Inr [], [(''SELECT * FROM companies WHERE 1 = 1 AND num_employees <= $1'', [JNum 5])])"
    by code_simp
  have b: "Company_findByFilters ?P (>) (\<lambda>s. s) ?q (JNum 10) JUndefined JUndefined [] =
     (Inr [], [(''SELECT * FROM companies WHERE 1 = 1 AND num_employees >= $1'', [JNum 10])])"
    by code_simp
  have c: "Company_findByFilters ?P (>) (\<lambda>s. s) ?q (JNum 10) (JNum 5) JUndefined [] =
     (Inl (BadRequestError ''min employees cannot be greater than max employees''), [])"
    by code_simp
  have f: "\<not> truthy (JNum 0)" by simp
  from Company_findByFilters_falsy_bounds
    [of "JNum 0" ?P "(>)" "JNum 5" "\<lambda>s. s" JUndefined ?q "[]"] f
  have a': "Company_findByFilters ?P (>) (\<lambda>s. s) ?q (JNum 0) (JNum 5) JUndefined [] =
      Company_findByFilters ?P (>) (\<lambda>s. s) ?q JUndefined (JNum 5) JUndefined []" by blast
  from Company_findByFilters_falsy_bounds
    [of "JNum 10" ?P "(>)" "JNum 0" "\<lambda>s. s" JUndefined ?q "[]"] f
  have b': "Company_findByFilters ?P (>) (\<lambda>s. s) ?q (JNum 10) (JNum 0) JUndefined [] =
      Company_findByFilters ?P (>) (\<lambda>s. s) ?q (JNum 10) JUndefined JUndefined []" by blast
  from a a' b b' c f show ?thesis by simp
qed

end
